theory Spec2Isabelle
  imports Main "HOL-Library.Product_Lexorder" "HOL-Library.Multiset"
begin

section \<open>The attendance system backend (backend/index.js)\<close>

text \<open>
  The backend is a set of Express route handlers. Each handler binds values taken from
  the request to one SQL statement, passes it to \<^verbatim>\<open>pool.query\<close>, and answers with JSON.
  The handlers are modelled by state passing over a \<open>world\<close>: the store behind the pool,
  the responses written to \<^verbatim>\<open>res\<close>, the errors printed with \<^verbatim>\<open>console.error\<close> and the
  statements handed to \<^verbatim>\<open>pool.query\<close>. A rejected query (the \<^verbatim>\<open>catch\<close> branch) is a value
  of \<open>db_error + result\<close>.
\<close>

subsection \<open>Rows and tables\<close>

datatype date = Date (year: nat) (month: nat) (day: nat)

text \<open>A column without a value holds SQL NULL, modelled as \<open>None\<close>.\<close>

record student =
  student_id :: int
  name :: "string option"
  roll_number :: "string option"

record attendance_record =
  attendance_id :: int
  att_student_id :: int
  date :: "date option"
  status :: "string option"

text \<open>The row shape of the join selected by \<^verbatim>\<open>GET /attendance\<close>:
  \<^verbatim>\<open>a.attendance_id, s.name, s.roll_number, a.date, a.status\<close>.\<close>

record joined =
  j_attendance_id :: int
  j_name :: "string option"
  j_roll_number :: "string option"
  j_date :: "date option"
  j_status :: "string option"

datatype row = StudentRow student | AttendanceRow attendance_record | JoinedRow joined

datatype fk_action = NoAction | Cascade

text \<open>
  Modelled from the spec: the schema of the store (the tables are created outside
  index.js). Section 3 of the specification gives the columns: \<open>student_id\<close> and
  \<open>attendance_id\<close> are generated integer primary keys, \<open>name\<close>, \<open>roll_number\<close> and
  \<open>status\<close> are text, \<open>date\<close> is a date, and \<open>attendance.student_id\<close> is a foreign key
  that must reference an existing student at insert time. No other constraint is
  declared, so the remaining columns accept NULL. What the foreign key does when a
  referenced student is deleted is left open by the specification; it is the
  parameter \<open>on_delete\<close> (refuse the delete, or delete the referencing records too).
  The two counters are the sequences behind the generated keys. Which notations the
  store accepts for a date depends on the store and its settings, not on index.js:
  \<open>date_style\<close> is the store's reading of a text as a \<open>date\<close> column value, with \<open>None\<close>
  for a text it refuses, and is a parameter too.
\<close>

record store =
  students :: "student list"
  attendance :: "attendance_record list"
  next_student_id :: int
  next_attendance_id :: int
  on_delete :: fk_action
  date_style :: "string \<Rightarrow> date option"

subsection \<open>Bound values\<close>

text \<open>
  node-postgres sends every bound value as text, or as NULL for \<^verbatim>\<open>null\<close> and
  \<^verbatim>\<open>undefined\<close>; the store reads the text as the type of the column it is compared
  with or stored in.
\<close>

type_synonym param = "string option"

text \<open>
  A property of the parsed JSON body: \<open>JText\<close> is a string, or the text
  node-postgres sends for a value of another kind (a number, a boolean, an array,
  an object).
\<close>

datatype js_value = JUndefined | JNull | JText string

definition prepare_value :: "js_value \<Rightarrow> param" where
  "prepare_value v = (case v of JUndefined \<Rightarrow> None | JNull \<Rightarrow> None | JText t \<Rightarrow> Some t)"

definition is_space :: "char \<Rightarrow> bool" where
  "is_space c = (c \<in> set [CHR '' '', CHR 0x09, CHR 0x0A, CHR 0x0B, CHR 0x0C, CHR 0x0D])"

definition is_digit :: "char \<Rightarrow> bool" where
  "is_digit c = (48 \<le> (of_char c :: nat) \<and> (of_char c :: nat) \<le> 57)"

definition digits_val :: "string \<Rightarrow> nat" where
  "digits_val ds = foldl (\<lambda>n c. 10 * n + ((of_char c :: nat) - 48)) 0 ds"

definition nat_in :: "string \<Rightarrow> nat option" where
  "nat_in ds = (if ds \<noteq> [] \<and> list_all is_digit ds then Some (digits_val ds) else None)"

definition trim :: "string \<Rightarrow> string" where
  "trim s = rev (dropWhile is_space (rev (dropWhile is_space s)))"

text \<open>
  Modelled from the spec: the store's reading of a text as an \<open>integer\<close> column value
  (decimal digits with an optional sign, surrounded by optional white space, within
  32 bits). \<open>None\<close> is a text the store refuses.
\<close>

definition int4_in :: "string \<Rightarrow> int option" where
  "int4_in s =
     (let t = trim s;
          v = (case t of
                 [] \<Rightarrow> None
               | c # ds \<Rightarrow>
                   if c = CHR ''-'' then map_option (\<lambda>n. - int n) (nat_in ds)
                   else if c = CHR ''+'' then map_option int (nat_in ds)
                   else map_option int (nat_in t))
      in case v of
           None \<Rightarrow> None
         | Some i \<Rightarrow> if - 2147483648 \<le> i \<and> i \<le> 2147483647 then Some i else None)"

definition days_in_month :: "nat \<Rightarrow> nat \<Rightarrow> nat" where
  "days_in_month y m =
     (if m = 2 then (if y mod 4 = 0 \<and> (y mod 100 \<noteq> 0 \<or> y mod 400 = 0) then 29 else 28)
      else if m \<in> set [4, 6, 9, 11] then 30 else 31)"

text \<open>
  Modelled from the spec: a \<open>date_style\<close> that reads the notation of the specification's
  examples (\<^verbatim>\<open>2024-02-01\<close>) and refuses every other text. The sample store below uses
  it; the properties hold for every \<open>date_style\<close>.
\<close>

definition date_in :: "string \<Rightarrow> date option" where
  "date_in s =
     (let t = trim s in
      if length t = 10 \<and> t ! 4 = CHR ''-'' \<and> t ! 7 = CHR ''-'' then
        (case (nat_in (take 4 t), nat_in (take 2 (drop 5 t)), nat_in (drop 8 t)) of
           (Some y, Some m, Some d) \<Rightarrow>
             if 1 \<le> y \<and> 1 \<le> m \<and> m \<le> 12 \<and> 1 \<le> d \<and> d \<le> days_in_month y m
             then Some (Date y m d) else None
         | _ \<Rightarrow> None)
      else None)"

datatype db_error = ConnectionFailure | InvalidInput | ForeignKeyViolation | UniqueViolation

definition read_int :: "param \<Rightarrow> db_error + int option" where
  "read_int p =
     (case p of
        None \<Rightarrow> Inr None
      | Some t \<Rightarrow> (case int4_in t of None \<Rightarrow> Inl InvalidInput | Some n \<Rightarrow> Inr (Some n)))"

definition read_date :: "store \<Rightarrow> param \<Rightarrow> db_error + date option" where
  "read_date s p =
     (case p of
        None \<Rightarrow> Inr None
      | Some t \<Rightarrow>
          (case date_style s t of None \<Rightarrow> Inl InvalidInput | Some d \<Rightarrow> Inr (Some d)))"

subsection \<open>The eight statements\<close>

text \<open>
  One constructor for each SQL text of index.js, with the values bound to its
  placeholders \<^verbatim>\<open>$1, $2, $3\<close> in order.
\<close>

datatype statement =
    SelectStudents
  | SelectAttendance
  | InsertStudent param param
  | InsertAttendance param param param
  | UpdateStudent param param param
  | UpdateAttendance param param
  | DeleteStudent param
  | DeleteAttendance param

record result =
  rows :: "row list"
  rowCount :: nat

definition returning :: "row list \<Rightarrow> result" where
  "returning rs = \<lparr>rows = rs, rowCount = length rs\<rparr>"

text \<open>\<^verbatim>\<open>SELECT * FROM students ORDER BY student_id ASC\<close>\<close>

definition select_students :: "store \<Rightarrow> (db_error + result) \<times> store" where
  "select_students s = (Inr (returning (map StudentRow (sort_key student_id (students s)))), s)"

text \<open>
  \<^verbatim>\<open>SELECT a.attendance_id, s.name, s.roll_number, a.date, a.status
  FROM attendance a JOIN students s ON a.student_id = s.student_id
  ORDER BY a.date DESC\<close>

  In descending order the store puts NULL dates first: NULL sorts as larger than
  every date.
\<close>

definition date_key :: "date option \<Rightarrow> nat \<times> nat \<times> nat \<times> nat" where
  "date_key d = (case d of None \<Rightarrow> (1, 0, 0, 0) | Some (Date y m dd) \<Rightarrow> (0, y, m, dd))"

definition join_row :: "attendance_record \<Rightarrow> student \<Rightarrow> joined" where
  "join_row a s =
     \<lparr>j_attendance_id = attendance_id a, j_name = name s, j_roll_number = roll_number s,
      j_date = date a, j_status = status a\<rparr>"

definition join_attendance_students :: "store \<Rightarrow> joined list" where
  "join_attendance_students s =
     concat (map (\<lambda>a. map (join_row a)
                         (filter (\<lambda>st. att_student_id a = student_id st) (students s)))
                 (attendance s))"

definition select_attendance :: "store \<Rightarrow> (db_error + result) \<times> store" where
  "select_attendance s =
     (Inr (returning (map JoinedRow
             (rev (sort_key (\<lambda>j. date_key (j_date j)) (join_attendance_students s))))), s)"

text \<open>\<^verbatim>\<open>INSERT INTO students (name, roll_number) VALUES ($1, $2) RETURNING *\<close>

  The sequence advances whether or not the row is stored.\<close>

definition insert_student :: "param \<Rightarrow> param \<Rightarrow> store \<Rightarrow> (db_error + result) \<times> store" where
  "insert_student nm roll s =
     (let n = next_student_id s;
          s1 = s\<lparr>next_student_id := n + 1\<rparr>;
          r = \<lparr>student_id = n, name = nm, roll_number = roll\<rparr>
      in if n \<in> set (map student_id (students s)) then (Inl UniqueViolation, s1)
         else (Inr (returning [StudentRow r]), s1\<lparr>students := students s @ [r]\<rparr>))"

text \<open>
  Modelled from the spec: the foreign-key constraint on \<open>attendance.student_id\<close>, which
  is declared with the tables, outside index.js. Section 3 of the specification:
  every AttendanceRecord's \<open>student_id\<close> must reference an existing Student at insert
  time. The result is the student referenced; a NULL \<open>student_id\<close> references none.
\<close>

definition referenced_student :: "store \<Rightarrow> int option \<Rightarrow> int option" where
  "referenced_student s v =
     (case v of
        None \<Rightarrow> None
      | Some k \<Rightarrow> if k \<in> set (map student_id (students s)) then Some k else None)"

text \<open>\<^verbatim>\<open>INSERT INTO attendance (student_id, date, status) VALUES ($1, $2, $3) RETURNING *\<close>

  The values are read first; then the row takes its key from the sequence, and the
  constraints are checked: the primary key, then the foreign key.\<close>

definition insert_attendance ::
  "param \<Rightarrow> param \<Rightarrow> param \<Rightarrow> store \<Rightarrow> (db_error + result) \<times> store" where
  "insert_attendance sid dt st s =
     (case read_int sid of
        Inl e \<Rightarrow> (Inl e, s)
      | Inr sid' \<Rightarrow>
          (case read_date s dt of
             Inl e \<Rightarrow> (Inl e, s)
           | Inr dt' \<Rightarrow>
               (let n = next_attendance_id s;
                    s1 = s\<lparr>next_attendance_id := n + 1\<rparr>
                in if n \<in> set (map attendance_id (attendance s)) then (Inl UniqueViolation, s1)
                   else (case referenced_student s sid' of
                           None \<Rightarrow> (Inl ForeignKeyViolation, s1)
                         | Some k \<Rightarrow>
                             (let r = \<lparr>attendance_id = n, att_student_id = k,
                                       date = dt', status = st\<rparr>
                              in (Inr (returning [AttendanceRow r]),
                                  s1\<lparr>attendance := attendance s @ [r]\<rparr>))))))"

text \<open>\<^verbatim>\<open>UPDATE students SET name = $1, roll_number = $2 WHERE student_id = $3 RETURNING *\<close>

  A NULL key matches no row.\<close>

definition update_student ::
  "param \<Rightarrow> param \<Rightarrow> param \<Rightarrow> store \<Rightarrow> (db_error + result) \<times> store" where
  "update_student nm roll idp s =
     (case read_int idp of
        Inl e \<Rightarrow> (Inl e, s)
      | Inr k \<Rightarrow>
          (let hit = (\<lambda>r. Some (student_id r) = k);
               upd = (\<lambda>r. r\<lparr>name := nm, roll_number := roll\<rparr>)
           in (Inr (returning (map (\<lambda>r. StudentRow (upd r)) (filter hit (students s)))),
               s\<lparr>students := map (\<lambda>r. if hit r then upd r else r) (students s)\<rparr>)))"

text \<open>\<^verbatim>\<open>UPDATE attendance SET status = $1 WHERE attendance_id = $2 RETURNING *\<close>\<close>

definition update_attendance :: "param \<Rightarrow> param \<Rightarrow> store \<Rightarrow> (db_error + result) \<times> store" where
  "update_attendance st idp s =
     (case read_int idp of
        Inl e \<Rightarrow> (Inl e, s)
      | Inr k \<Rightarrow>
          (let hit = (\<lambda>r. Some (attendance_id r) = k);
               upd = (\<lambda>r. r\<lparr>status := st\<rparr>)
           in (Inr (returning (map (\<lambda>r. AttendanceRow (upd r)) (filter hit (attendance s)))),
               s\<lparr>attendance := map (\<lambda>r. if hit r then upd r else r) (attendance s)\<rparr>)))"

text \<open>\<^verbatim>\<open>DELETE FROM students WHERE student_id = $1 RETURNING *\<close>

  When attendance records reference a student to delete, the foreign key either
  refuses the statement (\<open>NoAction\<close>) or deletes those records too (\<open>Cascade\<close>).\<close>

definition delete_from_students :: "param \<Rightarrow> store \<Rightarrow> (db_error + result) \<times> store" where
  "delete_from_students idp s =
     (case read_int idp of
        Inl e \<Rightarrow> (Inl e, s)
      | Inr k \<Rightarrow>
          (let hit = (\<lambda>r. Some (student_id r) = k);
               gone = filter hit (students s);
               refs = (\<lambda>a. att_student_id a \<in> set (map student_id gone))
           in if on_delete s = NoAction \<and> filter refs (attendance s) \<noteq> []
              then (Inl ForeignKeyViolation, s)
              else (Inr (returning (map StudentRow gone)),
                    s\<lparr>students := filter (\<lambda>r. \<not> hit r) (students s),
                      attendance := filter (\<lambda>a. \<not> refs a) (attendance s)\<rparr>)))"

text \<open>\<^verbatim>\<open>DELETE FROM attendance WHERE attendance_id = $1 RETURNING *\<close>\<close>

definition delete_from_attendance :: "param \<Rightarrow> store \<Rightarrow> (db_error + result) \<times> store" where
  "delete_from_attendance idp s =
     (case read_int idp of
        Inl e \<Rightarrow> (Inl e, s)
      | Inr k \<Rightarrow>
          (let hit = (\<lambda>r. Some (attendance_id r) = k)
           in (Inr (returning (map AttendanceRow (filter hit (attendance s)))),
               s\<lparr>attendance := filter (\<lambda>r. \<not> hit r) (attendance s)\<rparr>)))"

fun execute :: "statement \<Rightarrow> store \<Rightarrow> (db_error + result) \<times> store" where
  "execute SelectStudents s = select_students s"
| "execute SelectAttendance s = select_attendance s"
| "execute (InsertStudent nm roll) s = insert_student nm roll s"
| "execute (InsertAttendance sid dt st) s = insert_attendance sid dt st s"
| "execute (UpdateStudent nm roll idp) s = update_student nm roll idp s"
| "execute (UpdateAttendance st idp) s = update_attendance st idp s"
| "execute (DeleteStudent idp) s = delete_from_students idp s"
| "execute (DeleteAttendance idp) s = delete_from_attendance idp s"

subsection \<open>The pool, the response and the console\<close>

datatype payload =
    JsonRows "row list"
  | JsonRow "row option"
  | JsonDeleted string "row option"
  | JsonError string

record response =
  status_code :: nat
  json :: payload

record request =
  params_id :: string
  body :: "(string \<times> js_value) list"

record world =
  db :: store
  sent :: "response list"
  logged :: "db_error list"
  issued :: "statement list"

text \<open>
  \<^verbatim>\<open>await pool.query(text, values)\<close>. The statement is handed to the pool once. \<open>fault\<close>
  is what the connection does to it: \<open>Some e\<close> rejects the query with \<open>e\<close> before the
  store sees the statement (the connection is lost, no connection can be acquired);
  with \<open>None\<close> the store executes the statement, and the query is rejected when the
  store raises.
\<close>

definition pool_query ::
  "db_error option \<Rightarrow> statement \<Rightarrow> world \<Rightarrow> (db_error + result) \<times> world" where
  "pool_query fault stmt w =
     (let w1 = w\<lparr>issued := issued w @ [stmt]\<rparr>
      in case fault of
           Some e \<Rightarrow> (Inl e, w1)
         | None \<Rightarrow> (case execute stmt (db w) of (r, s') \<Rightarrow> (r, w1\<lparr>db := s'\<rparr>)))"

text \<open>\<^verbatim>\<open>res.status(c).json(p)\<close>, and \<^verbatim>\<open>res.json(p)\<close>, which answers with status 200.\<close>

definition res_status_json :: "nat \<Rightarrow> payload \<Rightarrow> world \<Rightarrow> world" where
  "res_status_json c p w = w\<lparr>sent := sent w @ [\<lparr>status_code = c, json = p\<rparr>]\<rparr>"

definition res_json :: "payload \<Rightarrow> world \<Rightarrow> world" where
  "res_json p w = res_status_json 200 p w"

definition console_error :: "db_error \<Rightarrow> world \<Rightarrow> world" where
  "console_error e w = w\<lparr>logged := logged w @ [e]\<rparr>"

text \<open>Reading a property of \<^verbatim>\<open>req.body\<close> by destructuring: a missing one is \<^verbatim>\<open>undefined\<close>.\<close>

definition property :: "(string \<times> js_value) list \<Rightarrow> string \<Rightarrow> js_value" where
  "property b k = (case map_of b k of None \<Rightarrow> JUndefined | Some v \<Rightarrow> v)"

text \<open>\<^verbatim>\<open>result.rows[0]\<close>: \<^verbatim>\<open>undefined\<close> (here \<open>None\<close>) when there is no row.\<close>

definition rows0 :: "result \<Rightarrow> row option" where
  "rows0 r = (case rows r of [] \<Rightarrow> None | x # _ \<Rightarrow> Some x)"

subsection \<open>The route handlers\<close>

text \<open>\<^verbatim>\<open>app.get("/students", ...)\<close>\<close>

definition get_students :: "db_error option \<Rightarrow> request \<Rightarrow> world \<Rightarrow> world" where
  "get_students fault req w =
     (case pool_query fault SelectStudents w of
        (Inr result, w1) \<Rightarrow> res_json (JsonRows (rows result)) w1
      | (Inl err, w1) \<Rightarrow>
          res_status_json 500 (JsonError ''Database query failed'') (console_error err w1))"

text \<open>\<^verbatim>\<open>app.get("/attendance", ...)\<close>\<close>

definition get_attendance :: "db_error option \<Rightarrow> request \<Rightarrow> world \<Rightarrow> world" where
  "get_attendance fault req w =
     (case pool_query fault SelectAttendance w of
        (Inr result, w1) \<Rightarrow> res_json (JsonRows (rows result)) w1
      | (Inl err, w1) \<Rightarrow>
          res_status_json 500 (JsonError ''Database query failed'') (console_error err w1))"

text \<open>\<^verbatim>\<open>app.post("/students", ...)\<close>\<close>

definition post_students :: "db_error option \<Rightarrow> request \<Rightarrow> world \<Rightarrow> world" where
  "post_students fault req w =
     (let name' = property (body req) ''name'';
          roll_number' = property (body req) ''roll_number''
      in case pool_query fault
                (InsertStudent (prepare_value name') (prepare_value roll_number')) w of
           (Inr result, w1) \<Rightarrow> res_status_json 201 (JsonRow (rows0 result)) w1
         | (Inl err, w1) \<Rightarrow>
             res_status_json 500 (JsonError ''Failed to add student'') (console_error err w1))"

text \<open>\<^verbatim>\<open>app.post("/attendance", ...)\<close>\<close>

definition post_attendance :: "db_error option \<Rightarrow> request \<Rightarrow> world \<Rightarrow> world" where
  "post_attendance fault req w =
     (let student_id' = property (body req) ''student_id'';
          date' = property (body req) ''date'';
          status' = property (body req) ''status''
      in case pool_query fault
                (InsertAttendance (prepare_value student_id') (prepare_value date')
                   (prepare_value status')) w of
           (Inr result, w1) \<Rightarrow> res_status_json 201 (JsonRow (rows0 result)) w1
         | (Inl err, w1) \<Rightarrow>
             res_status_json 500 (JsonError ''Failed to mark attendance'')
               (console_error err w1))"

text \<open>\<^verbatim>\<open>app.put("/students/:id", ...)\<close>\<close>

definition put_students :: "db_error option \<Rightarrow> request \<Rightarrow> world \<Rightarrow> world" where
  "put_students fault req w =
     (let id = params_id req;
          name' = property (body req) ''name'';
          roll_number' = property (body req) ''roll_number''
      in case pool_query fault
                (UpdateStudent (prepare_value name') (prepare_value roll_number') (Some id)) w of
           (Inr result, w1) \<Rightarrow>
             if rowCount result = 0
             then res_status_json 404 (JsonError ''Student not found'') w1
             else res_json (JsonRow (rows0 result)) w1
         | (Inl err, w1) \<Rightarrow>
             res_status_json 500 (JsonError ''Failed to update student'')
               (console_error err w1))"

text \<open>\<^verbatim>\<open>app.put("/attendance/:id", ...)\<close>\<close>

definition put_attendance :: "db_error option \<Rightarrow> request \<Rightarrow> world \<Rightarrow> world" where
  "put_attendance fault req w =
     (let id = params_id req;
          status' = property (body req) ''status''
      in case pool_query fault (UpdateAttendance (prepare_value status') (Some id)) w of
           (Inr result, w1) \<Rightarrow>
             if rowCount result = 0
             then res_status_json 404 (JsonError ''Attendance record not found'') w1
             else res_json (JsonRow (rows0 result)) w1
         | (Inl err, w1) \<Rightarrow>
             res_status_json 500 (JsonError ''Failed to update attendance'')
               (console_error err w1))"

text \<open>\<^verbatim>\<open>app.delete("/students/:id", ...)\<close>\<close>

definition delete_students :: "db_error option \<Rightarrow> request \<Rightarrow> world \<Rightarrow> world" where
  "delete_students fault req w =
     (let id = params_id req
      in case pool_query fault (DeleteStudent (Some id)) w of
           (Inr result, w1) \<Rightarrow>
             if rowCount result = 0
             then res_status_json 404 (JsonError ''Student not found'') w1
             else res_json (JsonDeleted ''Student deleted successfully'' (rows0 result)) w1
         | (Inl err, w1) \<Rightarrow>
             res_status_json 500 (JsonError ''Failed to delete student'')
               (console_error err w1))"

text \<open>\<^verbatim>\<open>app.delete("/attendance/:id", ...)\<close>\<close>

definition delete_attendance :: "db_error option \<Rightarrow> request \<Rightarrow> world \<Rightarrow> world" where
  "delete_attendance fault req w =
     (let id = params_id req
      in case pool_query fault (DeleteAttendance (Some id)) w of
           (Inr result, w1) \<Rightarrow>
             if rowCount result = 0
             then res_status_json 404 (JsonError ''Attendance record not found'') w1
             else res_json (JsonDeleted ''Attendance deleted successfully'' (rows0 result)) w1
         | (Inl err, w1) \<Rightarrow>
             res_status_json 500 (JsonError ''Failed to delete attendance'')
               (console_error err w1))"

text \<open>The router: the eight routes registered on \<^verbatim>\<open>app\<close> that query the store.\<close>

datatype route =
    GET_students
  | GET_attendance
  | POST_students
  | POST_attendance
  | PUT_students
  | PUT_attendance
  | DELETE_students
  | DELETE_attendance

fun handle :: "route \<Rightarrow> db_error option \<Rightarrow> request \<Rightarrow> world \<Rightarrow> world" where
  "handle GET_students = get_students"
| "handle GET_attendance = get_attendance"
| "handle POST_students = post_students"
| "handle POST_attendance = post_attendance"
| "handle PUT_students = put_students"
| "handle PUT_attendance = put_attendance"
| "handle DELETE_students = delete_students"
| "handle DELETE_attendance = delete_attendance"

text \<open>A request arrives at a store: nothing sent, logged or issued yet.\<close>

definition arrive :: "store \<Rightarrow> world" where
  "arrive s = \<lparr>db = s, sent = [], logged = [], issued = []\<rparr>"

subsection \<open>Notions of the specification\<close>

text \<open>The message of each route's \<^verbatim>\<open>catch\<close> branch, as index.js writes it.\<close>

fun failure_message :: "route \<Rightarrow> string" where
  "failure_message GET_students = ''Database query failed''"
| "failure_message GET_attendance = ''Database query failed''"
| "failure_message POST_students = ''Failed to add student''"
| "failure_message POST_attendance = ''Failed to mark attendance''"
| "failure_message PUT_students = ''Failed to update student''"
| "failure_message PUT_attendance = ''Failed to update attendance''"
| "failure_message DELETE_students = ''Failed to delete student''"
| "failure_message DELETE_attendance = ''Failed to delete attendance''"


text \<open>
  The join in the specification's words: the pairs of an attendance record and a
  student with the same \<open>student_id\<close>, each projected to
  \<open>{attendance_id, name, roll_number, date, status}\<close>.
\<close>

definition joined_rows :: "store \<Rightarrow> joined list" where
  "joined_rows s =
     map (\<lambda>(a, st).
            \<lparr>j_attendance_id = attendance_id a, j_name = name st,
             j_roll_number = roll_number st, j_date = date a, j_status = status a\<rparr>)
       (filter (\<lambda>(a, st). att_student_id a = student_id st)
          (List.product (attendance s) (students s)))"

text \<open>
  Descending order of dates: \<open>a\<close> may stand before \<open>b\<close> when \<open>a\<close> is the same day as \<open>b\<close>
  or a later one, by year, then month, then day. A row without a date stands before
  every dated row.
\<close>

definition date_desc :: "date option \<Rightarrow> date option \<Rightarrow> bool" where
  "date_desc a b =
     (case a of
        None \<Rightarrow> True
      | Some d \<Rightarrow>
          (case b of
             None \<Rightarrow> False
           | Some d' \<Rightarrow>
               year d' < year d
               \<or> (year d' = year d
                   \<and> (month d' < month d \<or> (month d' = month d \<and> day d' \<le> day d)))))"

text \<open>A store with two students and one attendance record each.\<close>

definition sample_store :: store where
  "sample_store =
     \<lparr>students =
        [\<lparr>student_id = 2, name = Some ''Bina'', roll_number = Some ''102''\<rparr>,
         \<lparr>student_id = 1, name = Some ''Amit'', roll_number = Some ''101''\<rparr>],
      attendance =
        [\<lparr>attendance_id = 1, att_student_id = 1, date = Some (Date 2024 1 1),
          status = Some ''present''\<rparr>,
         \<lparr>attendance_id = 2, att_student_id = 2, date = Some (Date 2024 2 1),
          status = Some ''absent''\<rparr>],
      next_student_id = 3, next_attendance_id = 3, on_delete = NoAction,
      date_style = date_in\<rparr>"

section \<open>Properties\<close>

subsection \<open>Auxiliary facts\<close>

lemmas respond_defs = res_json_def res_status_json_def console_error_def

lemmas handler_defs =
  get_students_def get_attendance_def post_students_def post_attendance_def
  put_students_def put_attendance_def delete_students_def delete_attendance_def

lemmas parse_defs = int4_in_def date_in_def trim_def is_space_def nat_in_def is_digit_def digits_val_def days_in_month_def

text \<open>The query, rejected by the connection or run by the store.\<close>

lemma pool_query_fault:
  "pool_query (Some e) stmt w = (Inl e, w\<lparr>issued := issued w @ [stmt]\<rparr>)"
  by (simp add: pool_query_def)

lemma pool_query_run:
  "pool_query None stmt w =
     (fst (execute stmt (db w)),
      w\<lparr>issued := issued w @ [stmt], db := snd (execute stmt (db w))\<rparr>)"
  by (simp add: pool_query_def split: prod.splits)

text \<open>Texts read by the store.\<close>

lemma int4_in_1: "int4_in ''1'' = Some 1"
  by (simp add: parse_defs)

lemma int4_in_2: "int4_in ''2'' = Some 2" by (simp add: parse_defs)

lemma int4_in_7: "int4_in ''7'' = Some 7" by (simp add: parse_defs)

lemma int4_in_999999: "int4_in ''999999'' = Some 999999"
  by (simp add: parse_defs)

lemma int4_in_abc: "int4_in ''abc'' = None"
  by (simp add: parse_defs)

lemma date_in_march: "date_in ''2024-03-01'' = Some (Date 2024 3 1)" by (simp add: parse_defs)

lemmas eval_defs =
  handler_defs pool_query_def respond_defs returning_def rows0_def property_def
  prepare_value_def read_int_def read_date_def arrive_def sample_store_def Let_def
  int4_in_1 int4_in_2 int4_in_7 int4_in_999999 int4_in_abc date_in_march

text \<open>The join of the source is the join of the specification.\<close>

lemma join_as_product:
  "concat (map (\<lambda>a. map (f a) (filter (p a) ss)) as) =
   map (\<lambda>(a, st). f a st) (filter (\<lambda>(a, st). p a st) (List.product as ss))"
  by (induction as) (simp_all add: filter_map o_def)

lemma join_attendance_students_joined_rows: "join_attendance_students s = joined_rows s"
proof -
  have "join_attendance_students s =
      map (\<lambda>(a, st). join_row a st)
        (filter (\<lambda>(a, st). att_student_id a = student_id st)
           (List.product (attendance s) (students s)))"
    unfolding join_attendance_students_def by (rule join_as_product)
  then show ?thesis by (simp add: joined_rows_def join_row_def)
qed

text \<open>The key the store sorts by orders dates as the specification does.\<close>

lemma date_desc_iff_key: "date_desc a b = (date_key b \<le> date_key a)"
proof (cases a)
  case None
  then show ?thesis by (cases b) (auto simp: date_desc_def date_key_def split: date.splits)
next
  case (Some d)
  then show ?thesis
    by (cases b; cases d) (auto simp: date_desc_def date_key_def split: date.splits)
qed

text \<open>Reversing an ascending sort gives a descending list.\<close>

lemma sorted_desc_rev_sort_key:
  "sorted_wrt (\<lambda>a b. k b \<le> k a) (rev (sort_key k xs))"
proof -
  have "sorted (map k (sort_key k xs))" by (rule sorted_sort_key)
  then have "sorted_wrt (\<lambda>a b. k a \<le> k b) (sort_key k xs)"
    by (simp add: sorted_wrt_map)
  then show ?thesis by (simp add: sorted_wrt_rev)
qed

lemma date_key_strict: "date_key (Some (Date 2024 1 1)) < date_key (Some (Date 2024 2 1))"
  by (simp add: date_key_def)

lemma desc_order_of_two:
  fixes k :: "'a \<Rightarrow> 'b::linorder"
  assumes "sorted_wrt (\<lambda>a b. k b \<le> k a) xs" and "i < length xs" and "j < length xs"
    and "k (xs ! j) < k (xs ! i)"
  shows "i < j"
proof (rule ccontr)
  assume "\<not> i < j"
  then consider "i = j" | "j < i" by linarith
  then show False
  proof cases
    case 1
    with assms(4) show False by simp
  next
    case 2
    with assms(1,2) have "k (xs ! i) \<le> k (xs ! j)" by (simp add: sorted_wrt_iff_nth_less)
    with assms(4) show False by simp
  qed
qed

text \<open>The statements on a key that the store can read.\<close>

lemma update_student_read:
  assumes "int4_in t = Some k"
  shows "update_student nm roll (Some t) s =
     (Inr (returning (map (\<lambda>r. StudentRow (r\<lparr>name := nm, roll_number := roll\<rparr>))
                        (filter (\<lambda>r. student_id r = k) (students s)))),
      s\<lparr>students := map (\<lambda>r. if student_id r = k then r\<lparr>name := nm, roll_number := roll\<rparr>
                                else r) (students s)\<rparr>)"
  using assms by (simp add: update_student_def read_int_def)

lemma update_student_unread:
  "int4_in t = None \<Longrightarrow> update_student nm roll (Some t) s = (Inl InvalidInput, s)"
  by (simp add: update_student_def read_int_def)

lemma update_attendance_read:
  assumes "int4_in t = Some k"
  shows "update_attendance st (Some t) s =
     (Inr (returning (map (\<lambda>r. AttendanceRow (r\<lparr>status := st\<rparr>))
                        (filter (\<lambda>r. attendance_id r = k) (attendance s)))),
      s\<lparr>attendance := map (\<lambda>r. if attendance_id r = k then r\<lparr>status := st\<rparr> else r)
                          (attendance s)\<rparr>)"
  using assms by (simp add: update_attendance_def read_int_def Let_def)

lemma delete_from_students_read:
  assumes "int4_in t = Some k"
  shows "delete_from_students (Some t) s =
     (let gone = filter (\<lambda>r. student_id r = k) (students s);
          refs = (\<lambda>a. att_student_id a \<in> set (map student_id gone))
      in if on_delete s = NoAction \<and> filter refs (attendance s) \<noteq> []
         then (Inl ForeignKeyViolation, s)
         else (Inr (returning (map StudentRow gone)),
               s\<lparr>students := filter (\<lambda>r. student_id r \<noteq> k) (students s),
                 attendance := filter (\<lambda>a. \<not> refs a) (attendance s)\<rparr>))"
  using assms by (simp add: delete_from_students_def read_int_def Let_def)

lemma filter_empty_iff_notin: "(filter (\<lambda>r. f r = k) xs = []) = (k \<notin> set (map f xs))"
  by (auto simp: filter_empty_conv)

lemma in_map_obtain: "s \<in> set (map f xs) \<Longrightarrow> \<exists>r0. s = f r0"
  by (induction xs) auto

lemma updated_name_null:
  assumes "s = (if student_id r0 = student_id s then r0\<lparr>name := None, roll_number := x\<rparr> else r0)"
  shows "name s = None"
proof (cases "student_id r0 = student_id s")
  case True
  with assms have "s = r0\<lparr>name := None, roll_number := x\<rparr>" by simp
  then have "name s = name (r0\<lparr>name := None, roll_number := x\<rparr>)" by (rule arg_cong)
  then show ?thesis by simp
next
  case False
  with assms have "s = r0" by simp
  with False show ?thesis by simp
qed

lemma updated_roll_number_null:
  assumes "s = (if student_id r0 = student_id s then r0\<lparr>name := x, roll_number := None\<rparr> else r0)"
  shows "roll_number s = None"
proof (cases "student_id r0 = student_id s")
  case True
  with assms have "s = r0\<lparr>name := x, roll_number := None\<rparr>" by simp
  then have "roll_number s = roll_number (r0\<lparr>name := x, roll_number := None\<rparr>)" by (rule arg_cong)
  then show ?thesis by simp
next
  case False
  with assms have "s = r0" by simp
  with False show ?thesis by simp
qed

text \<open>\<^verbatim>\<open>PUT /students/:id\<close> when the store runs the update.\<close>

lemma put_students_run:
  assumes "int4_in (params_id req) = Some k"
  shows "sent (put_students None req w) =
     sent w @
       [if k \<in> set (map student_id (students (db w)))
        then \<lparr>status_code = 200,
              json = JsonRow (Some (StudentRow
                \<lparr>student_id = k, name = prepare_value (property (body req) ''name''),
                 roll_number = prepare_value (property (body req) ''roll_number'')\<rparr>))\<rparr>
        else \<lparr>status_code = 404, json = JsonError ''Student not found''\<rparr>]"
proof (cases "filter (\<lambda>r. student_id r = k) (students (db w))")
  case Nil
  then have "k \<notin> set (map student_id (students (db w)))"
    using filter_empty_iff_notin [of student_id k "students (db w)"] by simp
  with Nil show ?thesis
    by (simp add: put_students_def pool_query_run update_student_read [OF assms]
        returning_def respond_defs Let_def)
next
  case (Cons r rs)
  then have "r \<in> set (filter (\<lambda>r. student_id r = k) (students (db w)))" by simp
  then have r: "student_id r = k" "r \<in> set (students (db w))" by simp_all
  then have "k \<in> set (map student_id (students (db w)))" by force
  with Cons r(1) show ?thesis
    by (simp add: put_students_def pool_query_run update_student_read [OF assms]
        returning_def respond_defs Let_def rows0_def)
qed

lemma put_students_store:
  assumes "int4_in (params_id req) = Some k"
  shows "students (db (put_students None req w)) =
     map (\<lambda>r. if student_id r = k
               then r\<lparr>name := prepare_value (property (body req) ''name''),
                      roll_number := prepare_value (property (body req) ''roll_number'')\<rparr>
               else r) (students (db w))"
  by (simp add: put_students_def pool_query_run update_student_read [OF assms]
        returning_def respond_defs Let_def)

text \<open>The update is rejected exactly when the connection fails or the path id is unreadable.\<close>

lemma update_student_rejected_iff:
  "(\<exists>e. fst (pool_query fault (UpdateStudent nm roll (Some t)) w) = Inl e) =
   (fault \<noteq> None \<or> int4_in t = None)"
proof (cases fault)
  case (Some e)
  then show ?thesis by (simp add: pool_query_fault)
next
  case None
  then show ?thesis
    by (cases "int4_in t")
      (simp_all add: pool_query_run update_student_unread update_student_read)
qed

text \<open>\<^verbatim>\<open>DELETE /students/:id\<close> answers 200 only after the store deleted the rows of that id.\<close>

lemma delete_students_200:
  assumes "sent (delete_students fault req w) = sent w @ [r]" and "status_code r = 200"
  shows "\<exists>k. int4_in (params_id req) = Some k
     \<and> students (db (delete_students fault req w)) =
         filter (\<lambda>r. student_id r \<noteq> k) (students (db w))"
proof (cases fault)
  case (Some e)
  with assms show ?thesis
    by (auto simp: delete_students_def pool_query_fault respond_defs)
next
  case None
  show ?thesis
  proof (cases "int4_in (params_id req)")
    case no: None
    with None assms show ?thesis
      by (auto simp: delete_students_def pool_query_run delete_from_students_def read_int_def
          respond_defs)
  next
    case (Some k)
    with None assms show ?thesis
      by (auto simp: delete_students_def pool_query_run delete_from_students_read [OF Some]
          respond_defs returning_def Let_def split: if_splits)
  qed
qed




subsection \<open>Updating a student\<close>

text \<open>
  C1 (as amended). \<^verbatim>\<open>PUT /students/:id\<close>, when the update is not rejected, that is, when
  the query reaches the store and the store reads the path id as an integer \<open>k\<close>: if
  no row of the students table has \<open>student_id = k\<close>, the response is 404 with the
  JSON body \<^verbatim>\<open>{error: "Student not found"}\<close>, whatever the body of the request is; if
  such a row exists, the response is 200 with the updated row, which is then a row of
  the table.
\<close>

theorem put_students_found_or_not:
  assumes "int4_in (params_id req) = Some k"
  shows "(k \<notin> set (map student_id (students (db w))) \<longrightarrow>
           (\<forall>b. sent (put_students None (req\<lparr>body := b\<rparr>) w) =
                 sent w @ [\<lparr>status_code = 404, json = JsonError ''Student not found''\<rparr>]))
       \<and> (k \<in> set (map student_id (students (db w))) \<longrightarrow>
           (let r' = \<lparr>student_id = k, name = prepare_value (property (body req) ''name''),
                      roll_number = prepare_value (property (body req) ''roll_number'')\<rparr>
            in sent (put_students None req w) =
                 sent w @ [\<lparr>status_code = 200, json = JsonRow (Some (StudentRow r'))\<rparr>]
               \<and> r' \<in> set (students (db (put_students None req w)))))"
proof (intro conjI impI allI)
  fix b
  assume "k \<notin> set (map student_id (students (db w)))"
  moreover have "int4_in (params_id (req\<lparr>body := b\<rparr>)) = Some k" using assms by simp
  ultimately show "sent (put_students None (req\<lparr>body := b\<rparr>) w) =
      sent w @ [\<lparr>status_code = 404, json = JsonError ''Student not found''\<rparr>]"
    by (simp add: put_students_run)
next
  assume found: "k \<in> set (map student_id (students (db w)))"
  then obtain r where r: "r \<in> set (students (db w))" "student_id r = k" by auto
  let ?nm = "prepare_value (property (body req) ''name'')"
  let ?roll = "prepare_value (property (body req) ''roll_number'')"
  have "r\<lparr>name := ?nm, roll_number := ?roll\<rparr> \<in> set (students (db (put_students None req w)))"
    unfolding put_students_store [OF assms] using r by force
  moreover have "r\<lparr>name := ?nm, roll_number := ?roll\<rparr> =
      \<lparr>student_id = k, name = ?nm, roll_number = ?roll\<rparr>"
    using r(2) by simp
  ultimately show "let r' = \<lparr>student_id = k, name = ?nm, roll_number = ?roll\<rparr>
      in sent (put_students None req w) =
           sent w @ [\<lparr>status_code = 200, json = JsonRow (Some (StudentRow r'))\<rparr>]
         \<and> r' \<in> set (students (db (put_students None req w)))"
    using found by (simp add: put_students_run [OF assms])
qed

text \<open>Id 999999 is not found, whatever the body; id 1 is updated.\<close>

theorem put_students_found_or_not_witness:
  "int4_in ''999999'' = Some 999999
   \<and> 999999 \<notin> set (map student_id (students sample_store))
   \<and> sent (put_students None \<lparr>params_id = ''999999'', body = [(''name'', JText ''Chitra'')]\<rparr>
             (arrive sample_store)) =
       [\<lparr>status_code = 404, json = JsonError ''Student not found''\<rparr>]
   \<and> int4_in ''1'' = Some 1
   \<and> 1 \<in> set (map student_id (students sample_store))
   \<and> sent (put_students None \<lparr>params_id = ''1'', body = [(''name'', JText ''Amit K'')]\<rparr>
             (arrive sample_store)) =
       [\<lparr>status_code = 200,
         json = JsonRow (Some (StudentRow
           \<lparr>student_id = 1, name = Some ''Amit K'', roll_number = None\<rparr>))\<rparr>]"
proof -
  have a: "int4_in (params_id \<lparr>params_id = ''999999'', body = []\<rparr>) = Some 999999"
    by (simp add: int4_in_999999)
  have b: "int4_in (params_id \<lparr>params_id = ''1'', body = [(''name'', JText ''Amit K'')]\<rparr>) = Some 1"
    by (simp add: int4_in_1)
  show ?thesis
    using put_students_found_or_not [OF a, of "arrive sample_store"]
      put_students_found_or_not [OF b, of "arrive sample_store"]
    by (simp add: int4_in_999999 int4_in_1 sample_store_def arrive_def property_def
        prepare_value_def Let_def)
qed

text \<open>
  C1 as stated fails: no row has a \<open>student_id\<close> equal to the path id \<^verbatim>\<open>abc\<close>, the store
  refuses to read \<^verbatim>\<open>abc\<close> as an integer, the query is rejected, and the \<^verbatim>\<open>catch\<close> branch
  answers 500, not 404.
\<close>

theorem put_students_unreadable_id_counterexample:
  "filter (\<lambda>r. int4_in ''abc'' = Some (student_id r)) (students sample_store) = []
   \<and> sent (put_students None \<lparr>params_id = ''abc'', body = []\<rparr> (arrive sample_store)) =
       [\<lparr>status_code = 500, json = JsonError ''Failed to update student''\<rparr>]"
  by (simp add: int4_in_abc put_students_def pool_query_run update_student_unread
      respond_defs arrive_def Let_def)

text \<open>
  C10. \<^verbatim>\<open>PUT /students/:id\<close> always issues the update of both fields, for every body:
  a field the body omits is bound as NULL; the response is 200, 404 or 500, never
  400; and when the store runs the update, a row of that id holds NULL in the
  omitted field afterwards.
\<close>

theorem put_students_binds_missing_as_null:
  "issued (put_students fault req w) =
     issued w @ [UpdateStudent (prepare_value (property (body req) ''name''))
                   (prepare_value (property (body req) ''roll_number'')) (Some (params_id req))]
   \<and> (map_of (body req) ''name'' = None \<longrightarrow>
        prepare_value (property (body req) ''name'') = None)
   \<and> (map_of (body req) ''roll_number'' = None \<longrightarrow>
        prepare_value (property (body req) ''roll_number'') = None)
   \<and> (\<exists>r. sent (put_students fault req w) = sent w @ [r] \<and> status_code r \<in> {200, 404, 500})
   \<and> (fault = None \<and> map_of (body req) ''name'' = None \<longrightarrow>
        (\<forall>s \<in> set (students (db (put_students fault req w))).
           int4_in (params_id req) = Some (student_id s) \<longrightarrow> name s = None))
   \<and> (fault = None \<and> map_of (body req) ''roll_number'' = None \<longrightarrow>
        (\<forall>s \<in> set (students (db (put_students fault req w))).
           int4_in (params_id req) = Some (student_id s) \<longrightarrow> roll_number s = None))"
proof (intro conjI impI)
  show "issued (put_students fault req w) =
     issued w @ [UpdateStudent (prepare_value (property (body req) ''name''))
                   (prepare_value (property (body req) ''roll_number'')) (Some (params_id req))]"
    by (cases fault)
      (auto simp: put_students_def pool_query_def respond_defs Let_def
        split: prod.splits sum.splits)
next
  assume "map_of (body req) ''name'' = None"
  then show "prepare_value (property (body req) ''name'') = None"
    by (simp add: property_def prepare_value_def)
next
  assume "map_of (body req) ''roll_number'' = None"
  then show "prepare_value (property (body req) ''roll_number'') = None"
    by (simp add: property_def prepare_value_def)
next
  show "\<exists>r. sent (put_students fault req w) = sent w @ [r] \<and> status_code r \<in> {200, 404, 500}"
    by (cases fault)
      (auto simp: put_students_def pool_query_def respond_defs Let_def
        split: prod.splits sum.splits)
next
  assume a: "fault = None \<and> map_of (body req) ''name'' = None"
  then have nm: "prepare_value (property (body req) ''name'') = None"
    by (simp add: property_def prepare_value_def)
  show "\<forall>s \<in> set (students (db (put_students fault req w))).
           int4_in (params_id req) = Some (student_id s) \<longrightarrow> name s = None"
  proof (intro ballI impI)
    fix s
    assume s: "s \<in> set (students (db (put_students fault req w)))"
      and k: "int4_in (params_id req) = Some (student_id s)"
    from s a have "s \<in> set (map (\<lambda>r. if student_id r = student_id s
        then r\<lparr>name := None,
               roll_number := prepare_value (property (body req) ''roll_number'')\<rparr>
        else r) (students (db w)))"
      using put_students_store [OF k, of w] nm by simp
    then obtain r0 where "s = (if student_id r0 = student_id s
        then r0\<lparr>name := None,
               roll_number := prepare_value (property (body req) ''roll_number'')\<rparr>
        else r0)"
      using in_map_obtain by fast
    then show "name s = None" by (rule updated_name_null)
  qed
next
  assume a: "fault = None \<and> map_of (body req) ''roll_number'' = None"
  then have roll: "prepare_value (property (body req) ''roll_number'') = None"
    by (simp add: property_def prepare_value_def)
  show "\<forall>s \<in> set (students (db (put_students fault req w))).
           int4_in (params_id req) = Some (student_id s) \<longrightarrow> roll_number s = None"
  proof (intro ballI impI)
    fix s
    assume s: "s \<in> set (students (db (put_students fault req w)))"
      and k: "int4_in (params_id req) = Some (student_id s)"
    from s a have "s \<in> set (map (\<lambda>r. if student_id r = student_id s
        then r\<lparr>name := prepare_value (property (body req) ''name''),
               roll_number := None\<rparr>
        else r) (students (db w)))"
      using put_students_store [OF k, of w] roll by simp
    then obtain r0 where "s = (if student_id r0 = student_id s
        then r0\<lparr>name := prepare_value (property (body req) ''name''),
               roll_number := None\<rparr>
        else r0)"
      using in_map_obtain by fast
    then show "roll_number s = None" by (rule updated_roll_number_null)
  qed
qed

text \<open>A body without \<open>name\<close> overwrites the name of student 1 with NULL.\<close>

theorem put_students_binds_missing_as_null_witness:
  "map_of [(''roll_number'', JText ''111'')] ''name'' = None
   \<and> issued (put_students None \<lparr>params_id = ''1'', body = [(''roll_number'', JText ''111'')]\<rparr>
        (arrive sample_store)) = [UpdateStudent None (Some ''111'') (Some ''1'')]
   \<and> sent (put_students None \<lparr>params_id = ''1'', body = [(''roll_number'', JText ''111'')]\<rparr>
        (arrive sample_store)) =
       [\<lparr>status_code = 200,
         json = JsonRow (Some (StudentRow
           \<lparr>student_id = 1, name = None, roll_number = Some ''111''\<rparr>))\<rparr>]
   \<and> students (db (put_students None
        \<lparr>params_id = ''1'', body = [(''roll_number'', JText ''111'')]\<rparr> (arrive sample_store))) =
       [\<lparr>student_id = 2, name = Some ''Bina'', roll_number = Some ''102''\<rparr>,
        \<lparr>student_id = 1, name = None, roll_number = Some ''111''\<rparr>]"
  using put_students_binds_missing_as_null [of None
      "\<lparr>params_id = ''1'', body = [(''roll_number'', JText ''111'')]\<rparr>" "arrive sample_store"]
  by (simp add: eval_defs update_student_def)

subsection \<open>Marking attendance\<close>




subsection \<open>Updating the status of an attendance record\<close>

text \<open>
  C3. \<^verbatim>\<open>PUT /attendance/:id\<close> that finds a matching row (the store runs the update and
  a row has the \<open>attendance_id\<close> of the path) answers 200 and changes nothing but the
  status of the matching rows: the students table is the same, the attendance table
  has the same rows in the same places, each with its \<open>attendance_id\<close>, \<open>student_id\<close>
  and \<open>date\<close> as before, and a row of another id is the same row.
\<close>

theorem put_attendance_changes_status_only:
  assumes id: "int4_in (params_id req) = Some k"
    and found: "k \<in> set (map attendance_id (attendance (db w)))"
  shows "(\<exists>a. sent (put_attendance None req w) =
              sent w @ [\<lparr>status_code = 200, json = JsonRow (Some (AttendanceRow a))\<rparr>])
    \<and> students (db (put_attendance None req w)) = students (db w)
    \<and> length (attendance (db (put_attendance None req w))) = length (attendance (db w))
    \<and> (\<forall>i < length (attendance (db w)).
          let a = attendance (db w) ! i; a' = attendance (db (put_attendance None req w)) ! i
          in attendance_id a' = attendance_id a
             \<and> att_student_id a' = att_student_id a
             \<and> date a' = date a
             \<and> (attendance_id a = k \<longrightarrow>
                  status a' = prepare_value (property (body req) ''status''))
             \<and> (attendance_id a \<noteq> k \<longrightarrow> a' = a))"
proof -
  let ?st = "prepare_value (property (body req) ''status'')"
  let ?hits = "filter (\<lambda>r. attendance_id r = k) (attendance (db w))"
  let ?w' = "put_attendance None req w"
  from found have "?hits \<noteq> []" by (auto simp: filter_empty_conv)
  then obtain a as where hits: "?hits = a # as" by (cases ?hits) auto
  have "sent ?w' =
      sent w @ [\<lparr>status_code = 200, json = JsonRow (Some (AttendanceRow (a\<lparr>status := ?st\<rparr>)))\<rparr>]"
    using hits
    by (simp add: put_attendance_def pool_query_run update_attendance_read [OF id]
        returning_def respond_defs rows0_def Let_def)
  then have one: "\<exists>a. sent ?w' =
      sent w @ [\<lparr>status_code = 200, json = JsonRow (Some (AttendanceRow a))\<rparr>]" ..
  have db': "db ?w' = (db w)\<lparr>attendance :=
      map (\<lambda>r. if attendance_id r = k then r\<lparr>status := ?st\<rparr> else r) (attendance (db w))\<rparr>"
    using hits
    by (simp add: put_attendance_def pool_query_run update_attendance_read [OF id]
        returning_def respond_defs rows0_def Let_def)
  have "students (db ?w') = students (db w)" by (simp add: db')
  moreover have "length (attendance (db ?w')) = length (attendance (db w))" by (simp add: db')
  moreover have "\<forall>i < length (attendance (db w)).
          let a = attendance (db w) ! i; a' = attendance (db ?w') ! i
          in attendance_id a' = attendance_id a
             \<and> att_student_id a' = att_student_id a
             \<and> date a' = date a
             \<and> (attendance_id a = k \<longrightarrow> status a' = ?st)
             \<and> (attendance_id a \<noteq> k \<longrightarrow> a' = a)"
    by (simp add: db' Let_def)
  ultimately show ?thesis using one by blast
qed

text \<open>Record 1 becomes \<open>late\<close>; its student and date, and record 2, stay.\<close>

theorem put_attendance_changes_status_only_witness:
  "int4_in ''1'' = Some 1
   \<and> 1 \<in> set (map attendance_id (attendance sample_store))
   \<and> sent (put_attendance None \<lparr>params_id = ''1'', body = [(''status'', JText ''late'')]\<rparr>
        (arrive sample_store)) =
       [\<lparr>status_code = 200,
         json = JsonRow (Some (AttendanceRow
           \<lparr>attendance_id = 1, att_student_id = 1, date = Some (Date 2024 1 1),
            status = Some ''late''\<rparr>))\<rparr>]
   \<and> attendance (db (put_attendance None
        \<lparr>params_id = ''1'', body = [(''status'', JText ''late'')]\<rparr> (arrive sample_store))) =
       [\<lparr>attendance_id = 1, att_student_id = 1, date = Some (Date 2024 1 1),
         status = Some ''late''\<rparr>,
        \<lparr>attendance_id = 2, att_student_id = 2, date = Some (Date 2024 2 1),
         status = Some ''absent''\<rparr>]
   \<and> students (db (put_attendance None
        \<lparr>params_id = ''1'', body = [(''status'', JText ''late'')]\<rparr> (arrive sample_store))) =
       students sample_store"
proof -
  let ?req = "\<lparr>params_id = ''1'', body = [(''status'', JText ''late'')]\<rparr>"
  have a: "int4_in (params_id ?req) = Some 1" by (simp add: int4_in_1)
  have b: "1 \<in> set (map attendance_id (attendance (db (arrive sample_store))))"
    by (simp add: arrive_def sample_store_def)
  show ?thesis
    using put_attendance_changes_status_only [OF a b]
    by (simp add: eval_defs update_attendance_def)
qed

subsection \<open>Deleting a student\<close>

text \<open>
  C4. When \<^verbatim>\<open>DELETE /students/:id\<close> has answered 200, a \<^verbatim>\<open>GET /students\<close> on the resulting
  store answers 200 with an array in which no row has the \<open>student_id\<close> of the path;
  and whatever happens to the query of that \<^verbatim>\<open>GET\<close>, no array it sends holds such a row.
\<close>

theorem deleted_student_not_listed:
  assumes "sent (delete_students fault req w) = sent w @ [r]" and "status_code r = 200"
  shows "(\<exists>rs. sent (get_students None req' (arrive (db (delete_students fault req w)))) =
                 [\<lparr>status_code = 200, json = JsonRows (map StudentRow rs)\<rparr>]
              \<and> (\<forall>s \<in> set rs. int4_in (params_id req) \<noteq> Some (student_id s)))
       \<and> (\<forall>r' rows s.
              r' \<in> set (sent (get_students fault' req' (arrive (db (delete_students fault req w)))))
              \<and> json r' = JsonRows rows \<and> StudentRow s \<in> set rows
            \<longrightarrow> int4_in (params_id req) \<noteq> Some (student_id s))"
proof -
  let ?s1 = "db (delete_students fault req w)"
  from delete_students_200 [OF assms] obtain k where
    k: "int4_in (params_id req) = Some k"
    and tbl: "students ?s1 = filter (\<lambda>r. student_id r \<noteq> k) (students (db w))"
    by blast
  let ?rs = "sort_key student_id (students ?s1)"
  have run: "sent (get_students None req' (arrive ?s1)) =
      [\<lparr>status_code = 200, json = JsonRows (map StudentRow ?rs)\<rparr>]"
    by (simp add: get_students_def pool_query_def select_students_def returning_def
        respond_defs arrive_def)
  have absent: "\<forall>s \<in> set ?rs. int4_in (params_id req) \<noteq> Some (student_id s)"
    by (simp add: tbl k)
  have any: "int4_in (params_id req) \<noteq> Some (student_id s)"
    if "r' \<in> set (sent (get_students fault' req' (arrive ?s1)))"
      "json r' = JsonRows rows" "StudentRow s \<in> set rows" for r' rows s
  proof (cases fault')
    case None
    with that(1) run have "r' = \<lparr>status_code = 200, json = JsonRows (map StudentRow ?rs)\<rparr>"
      by simp
    with that(2,3) have "s \<in> set ?rs" by auto
    with absent show ?thesis by blast
  next
    case (Some e)
    with that(1) have "r' = \<lparr>status_code = 500, json = JsonError ''Database query failed''\<rparr>"
      by (simp add: get_students_def pool_query_fault respond_defs arrive_def)
    with that(2) show ?thesis by simp
  qed
  from run absent any show ?thesis by blast
qed

text \<open>With cascading deletes, student 1 is deleted and the list holds student 2 only.\<close>

theorem deleted_student_not_listed_witness:
  "sent (delete_students None \<lparr>params_id = ''1'', body = []\<rparr>
           (arrive (sample_store\<lparr>on_delete := Cascade\<rparr>))) =
     [\<lparr>status_code = 200,
       json = JsonDeleted ''Student deleted successfully''
         (Some (StudentRow \<lparr>student_id = 1, name = Some ''Amit'', roll_number = Some ''101''\<rparr>))\<rparr>]
   \<and> sent (get_students None \<lparr>params_id = [], body = []\<rparr>
       (arrive (db (delete_students None \<lparr>params_id = ''1'', body = []\<rparr>
           (arrive (sample_store\<lparr>on_delete := Cascade\<rparr>)))))) =
     [\<lparr>status_code = 200,
       json = JsonRows
         [StudentRow \<lparr>student_id = 2, name = Some ''Bina'', roll_number = Some ''102''\<rparr>]\<rparr>]"
proof -
  let ?req = "\<lparr>params_id = ''1'', body = []\<rparr>"
  let ?w = "arrive (sample_store\<lparr>on_delete := Cascade\<rparr>)"
  let ?r = "\<lparr>status_code = 200,
       json = JsonDeleted ''Student deleted successfully''
         (Some (StudentRow \<lparr>student_id = 1, name = Some ''Amit'', roll_number = Some ''101''\<rparr>))\<rparr>"
  have a: "sent (delete_students None ?req ?w) = sent ?w @ [?r]"
    by (simp add: eval_defs delete_from_students_def)
  have b: "status_code ?r = 200" by simp
  show ?thesis
    using deleted_student_not_listed [OF a b, of "\<lparr>params_id = [], body = []\<rparr>" None]
    by (simp add: eval_defs delete_from_students_def select_students_def)
qed

subsection \<open>Listing attendance\<close>

text \<open>
  C5. \<^verbatim>\<open>GET /attendance\<close>, when the query reaches the store, answers 200 with an
  array that holds, for every pair of an attendance record and a student with the
  same \<open>student_id\<close>, the row of the record's \<open>attendance_id\<close>, \<open>date\<close> and \<open>status\<close> and
  the student's \<open>name\<close> and \<open>roll_number\<close>, once for each such pair and nothing else; any
  row of the array stands before the rows of the same or an earlier day (by year,
  month and day), rows without a date standing first. In particular a row dated
  2024-02-01 stands before a row dated 2024-01-01.
\<close>

theorem get_attendance_joined_desc:
  "\<exists>js. sent (get_attendance None req w) =
           sent w @ [\<lparr>status_code = 200, json = JsonRows (map JoinedRow js)\<rparr>]
      \<and> mset js = mset (joined_rows (db w))
      \<and> sorted_wrt (\<lambda>a b. date_desc (j_date a) (j_date b)) js
      \<and> (\<forall>i j. i < length js \<and> j < length js
             \<and> j_date (js ! i) = Some (Date 2024 2 1) \<and> j_date (js ! j) = Some (Date 2024 1 1)
             \<longrightarrow> i < j)"
proof -
  let ?k = "\<lambda>j. date_key (j_date j)"
  let ?js = "rev (sort_key ?k (join_attendance_students (db w)))"
  have sent: "sent (get_attendance None req w) =
          sent w @ [\<lparr>status_code = 200, json = JsonRows (map JoinedRow ?js)\<rparr>]"
    by (simp add: get_attendance_def pool_query_def select_attendance_def returning_def
        respond_defs)
  have perm: "mset ?js = mset (joined_rows (db w))"
    by (simp add: join_attendance_students_joined_rows)
  have desc: "sorted_wrt (\<lambda>a b. ?k b \<le> ?k a) ?js" by (rule sorted_desc_rev_sort_key)
  then have desc': "sorted_wrt (\<lambda>a b. date_desc (j_date a) (j_date b)) ?js"
    by (simp add: date_desc_iff_key)
  have two: "i < j" if "i < length ?js" "j < length ?js"
    "j_date (?js ! i) = Some (Date 2024 2 1)" "j_date (?js ! j) = Some (Date 2024 1 1)" for i j
  proof -
    have "?k (?js ! j) < ?k (?js ! i)" using that(3,4) date_key_strict by simp
    with desc that(1,2) show ?thesis by (rule desc_order_of_two)
  qed
  from sent perm desc' two show ?thesis by blast
qed

text \<open>The sample store holds the January record first; the response lists February first.\<close>

theorem get_attendance_joined_desc_witness:
  "joined_rows sample_store =
     [\<lparr>j_attendance_id = 1, j_name = Some ''Amit'', j_roll_number = Some ''101'',
       j_date = Some (Date 2024 1 1), j_status = Some ''present''\<rparr>,
      \<lparr>j_attendance_id = 2, j_name = Some ''Bina'', j_roll_number = Some ''102'',
       j_date = Some (Date 2024 2 1), j_status = Some ''absent''\<rparr>]
   \<and> sent (get_attendance None \<lparr>params_id = [], body = []\<rparr> (arrive sample_store)) =
     [\<lparr>status_code = 200,
       json = JsonRows
         [JoinedRow \<lparr>j_attendance_id = 2, j_name = Some ''Bina'', j_roll_number = Some ''102'',
            j_date = Some (Date 2024 2 1), j_status = Some ''absent''\<rparr>,
          JoinedRow \<lparr>j_attendance_id = 1, j_name = Some ''Amit'', j_roll_number = Some ''101'',
            j_date = Some (Date 2024 1 1), j_status = Some ''present''\<rparr>]\<rparr>]"
  using get_attendance_joined_desc [of "\<lparr>params_id = [], body = []\<rparr>" "arrive sample_store"]
  by (simp add: get_attendance_def pool_query_def select_attendance_def
      join_attendance_students_def joined_rows_def join_row_def date_key_def
      sample_store_def arrive_def returning_def respond_defs)

subsection \<open>Listing students\<close>

text \<open>
  C6. \<^verbatim>\<open>GET /students\<close>: when the query reaches the store, the response is 200 with
  all rows of the students table (the same rows, each as often as the table holds it)
  in ascending order of \<open>student_id\<close>; when the query is rejected with an error \<open>e\<close>,
  the response is 500 with the JSON body \<^verbatim>\<open>{error: "Database query failed"}\<close>.
\<close>

theorem get_students_lists_sorted:
  "(\<exists>rs. sent (get_students None req w) =
            sent w @ [\<lparr>status_code = 200, json = JsonRows (map StudentRow rs)\<rparr>]
        \<and> sorted (map student_id rs) \<and> mset rs = mset (students (db w)))
   \<and> sent (get_students (Some e) req w) =
       sent w @ [\<lparr>status_code = 500, json = JsonError ''Database query failed''\<rparr>]"
proof (intro conjI)
  let ?rs = "sort_key student_id (students (db w))"
  have "sent (get_students None req w) =
          sent w @ [\<lparr>status_code = 200, json = JsonRows (map StudentRow ?rs)\<rparr>]"
    by (simp add: get_students_def pool_query_def select_students_def returning_def respond_defs)
  moreover have "sorted (map student_id ?rs)" by (rule sorted_sort_key)
  moreover have "mset ?rs = mset (students (db w))" by simp
  ultimately show "\<exists>rs. sent (get_students None req w) =
            sent w @ [\<lparr>status_code = 200, json = JsonRows (map StudentRow rs)\<rparr>]
        \<and> sorted (map student_id rs) \<and> mset rs = mset (students (db w))"
    by blast
next
  show "sent (get_students (Some e) req w) =
       sent w @ [\<lparr>status_code = 500, json = JsonError ''Database query failed''\<rparr>]"
    by (simp add: get_students_def pool_query_def respond_defs)
qed

text \<open>The sample store holds student 2 first; the response lists student 1 first.\<close>

theorem get_students_lists_sorted_witness:
  "sent (get_students None \<lparr>params_id = [], body = []\<rparr> (arrive sample_store)) =
     [\<lparr>status_code = 200,
       json = JsonRows
         [StudentRow \<lparr>student_id = 1, name = Some ''Amit'', roll_number = Some ''101''\<rparr>,
          StudentRow \<lparr>student_id = 2, name = Some ''Bina'', roll_number = Some ''102''\<rparr>]\<rparr>]"
  using get_students_lists_sorted [of "\<lparr>params_id = [], body = []\<rparr>" "arrive sample_store"]
  by (simp add: eval_defs select_students_def)

subsection \<open>All routes\<close>

text \<open>
  C7. Every route hands one statement to the pool, once. Whenever that query is
  rejected with an error \<open>e\<close> (by the connection, or by the store), the response is 500
  with the route's fixed message as JSON error body, which does not depend on \<open>e\<close>,
  and \<open>e\<close> is logged.
\<close>

theorem rejected_query_answers_500:
  "\<exists>stmt. issued (handle rt fault req w) = issued w @ [stmt]
      \<and> (\<forall>e. fst (pool_query fault stmt w) = Inl e \<longrightarrow>
            sent (handle rt fault req w) =
              sent w @ [\<lparr>status_code = 500, json = JsonError (failure_message rt)\<rparr>]
            \<and> logged (handle rt fault req w) = logged w @ [e])"
  by (cases rt; cases fault)
    (auto simp: handler_defs pool_query_def respond_defs Let_def split: prod.splits sum.splits)

text \<open>A lost connection on \<^verbatim>\<open>GET /students\<close>, and a delete the foreign key refuses.\<close>

theorem rejected_query_answers_500_witness:
  "fst (pool_query (Some ConnectionFailure) SelectStudents (arrive sample_store)) =
     Inl ConnectionFailure
   \<and> issued (handle GET_students (Some ConnectionFailure) \<lparr>params_id = [], body = []\<rparr>
        (arrive sample_store)) = [SelectStudents]
   \<and> sent (handle GET_students (Some ConnectionFailure) \<lparr>params_id = [], body = []\<rparr>
        (arrive sample_store)) =
       [\<lparr>status_code = 500, json = JsonError ''Database query failed''\<rparr>]
   \<and> logged (handle GET_students (Some ConnectionFailure) \<lparr>params_id = [], body = []\<rparr>
        (arrive sample_store)) = [ConnectionFailure]
   \<and> fst (pool_query None (DeleteStudent (Some ''1'')) (arrive sample_store)) =
     Inl ForeignKeyViolation
   \<and> sent (handle DELETE_students None \<lparr>params_id = ''1'', body = []\<rparr>
        (arrive sample_store)) =
       [\<lparr>status_code = 500, json = JsonError ''Failed to delete student''\<rparr>]
   \<and> logged (handle DELETE_students None \<lparr>params_id = ''1'', body = []\<rparr>
        (arrive sample_store)) = [ForeignKeyViolation]"
  using
    rejected_query_answers_500 [of GET_students "Some ConnectionFailure"
      "\<lparr>params_id = [], body = []\<rparr>" "arrive sample_store"]
    rejected_query_answers_500 [of DELETE_students None
      "\<lparr>params_id = ''1'', body = []\<rparr>" "arrive sample_store"]
  by (simp add: eval_defs delete_from_students_def)

text \<open>
  C8. For every route, every request, every store and every outcome of the query, the
  handler sends exactly one response, with status 200, 201, 404 or 500.
\<close>

theorem handle_sends_one_response:
  "\<exists>r. sent (handle rt fault req w) = sent w @ [r]
       \<and> status_code r \<in> {200, 201, 404, 500}"
  by (cases rt; cases fault)
    (auto simp: handler_defs pool_query_def respond_defs Let_def split: prod.splits sum.splits)

text \<open>No attendance record has id 7 (404); a student is created (201).\<close>

theorem handle_sends_one_response_witness:
  "sent (handle DELETE_attendance None \<lparr>params_id = ''7'', body = []\<rparr> (arrive sample_store)) =
     [\<lparr>status_code = 404, json = JsonError ''Attendance record not found''\<rparr>]
   \<and> sent (handle POST_students None
        \<lparr>params_id = [], body = [(''name'', JText ''Chitra''), (''roll_number'', JText ''103'')]\<rparr>
        (arrive sample_store)) =
     [\<lparr>status_code = 201,
       json = JsonRow (Some (StudentRow
         \<lparr>student_id = 3, name = Some ''Chitra'', roll_number = Some ''103''\<rparr>))\<rparr>]"
  using
    handle_sends_one_response [of DELETE_attendance None "\<lparr>params_id = ''7'', body = []\<rparr>"
      "arrive sample_store"]
    handle_sends_one_response [of POST_students None
      "\<lparr>params_id = [], body = [(''name'', JText ''Chitra''), (''roll_number'', JText ''103'')]\<rparr>"
      "arrive sample_store"]
  by (simp add: eval_defs delete_from_attendance_def insert_student_def)

text \<open>
  C9. \<^verbatim>\<open>GET /students\<close> and \<^verbatim>\<open>GET /attendance\<close> leave the store as it is, both tables
  included, and issue one statement, their \<^verbatim>\<open>SELECT\<close>.
\<close>

theorem get_handlers_read_only:
  "db (get_students fault req w) = db w
   \<and> issued (get_students fault req w) = issued w @ [SelectStudents]
   \<and> db (get_attendance fault req w) = db w
   \<and> issued (get_attendance fault req w) = issued w @ [SelectAttendance]"
  by (cases fault)
    (simp_all add: get_students_def get_attendance_def pool_query_def select_students_def
      select_attendance_def respond_defs)

text \<open>Both listings leave the sample store as it is.\<close>

theorem get_handlers_read_only_witness:
  "db (get_students None \<lparr>params_id = [], body = []\<rparr> (arrive sample_store)) = sample_store
   \<and> db (get_attendance None \<lparr>params_id = [], body = []\<rparr> (arrive sample_store)) = sample_store"
  using get_handlers_read_only [of None "\<lparr>params_id = [], body = []\<rparr>" "arrive sample_store"]
  by (simp add: arrive_def)

end
